theory Spec2Isabelle
  imports Complex_Main
begin

section \<open>Shared vocabulary\<close>

text \<open>
  The services talk to each other over HTTP. A remote call either raises in the
  client (connection refused, timeout) or comes back with a status code and a body.
  The body is typed by the response model of the service that answers
  (\<open>schemas.Product\<close>, \<open>schemas.InventoryItem\<close>); a body that does not parse is
  \<open>None\<close>, and \<open>response.json()\<close> raises on it.

  Quantities and prices are Python floats in the source. They are taken as real
  numbers here: rounding, infinities and NaN are outside the model. Timestamps are
  readings of a clock, passed in where the source calls \<open>datetime.now()\<close> or lets
  the database fill a column with \<open>func.now()\<close>.
\<close>

type_synonym timestamp = nat

datatype 'b response = Unreachable | Response int "'b option"

text \<open>The payloads posted to the notification service: \<open>order_status\<close> carries
  order id, status and recipient; \<open>low_stock\<close> carries product id, current
  quantity and threshold.\<close>

datatype notification =
    OrderStatus int string string
  | LowStock int real int

text \<open>The requests a service sends: product lookup, inventory lookup, inventory
  adjustment (product id, amount, allow\_negative) and notification post.\<close>

datatype request =
    GetProduct int
  | GetInventory int
  | PostAdjust int real bool
  | PostNotification notification

type_synonym trace = "request list"

record product_json =
  pj_id :: int
  pj_name :: string
  pj_description :: "string option"
  price :: real
  sku :: string

text \<open>An inventory row. Its two timestamp columns are filled by the database and
  read by nothing below; they are left out.\<close>

record inventory_item =
  inv_id :: int
  inv_product_id :: int
  inv_quantity :: real
  location :: "string option"

text \<open>
  The collaborators as seen by a caller. An answer may depend on everything that was
  sent before (the trace), so a collaborator with state of its own is covered.
  Nothing reads the answer to a notification post, so it has no entry.
\<close>

record world =
  products :: "trace \<Rightarrow> int \<Rightarrow> product_json response"
  inventory_get :: "trace \<Rightarrow> int \<Rightarrow> inventory_item response"
  inventory_adjust :: "trace \<Rightarrow> int \<Rightarrow> real \<Rightarrow> bool \<Rightarrow> inventory_item response"

text \<open>The \<open>detail\<close> of an \<open>HTTPException\<close>: \<open>"Product {id} not found"\<close>,
  \<open>"Order not found"\<close>, \<open>"Product not found"\<close>, \<open>"Inventory item not found"\<close>,
  \<open>"Adjustment would cause negative inventory"\<close>.\<close>

datatype detail =
    ProductIdNotFound int
  | OrderNotFound
  | ProductNotFound
  | InventoryItemNotFound
  | NegativeInventory

text \<open>What a caller of an endpoint can get instead of a result: an \<open>HTTPException\<close>
  raised by the handler, a 422 from the validation of the request body, or a 500 from
  an exception nobody handles.\<close>

datatype http_error =
    HTTPException int detail
  | ValidationError
  | InternalServerError

text \<open>Primary keys: an \<open>Integer\<close> primary key on SQLite, the engine
  \<open>database.py\<close> uses unless the environment names another, is the row id: one
  more than the largest one in the table.\<close>

definition next_id :: "int list \<Rightarrow> int" where
  "next_id ids = (if ids = [] then 1 else Max (set ids) + 1)"

section \<open>Order service\<close>

subsection \<open>Tables and schemas\<close>

record order =
  order_id :: int
  customer_name :: string
  customer_email :: string
  status :: string
  created_at :: timestamp
  updated_at :: "timestamp option"

record order_item =
  item_id :: int
  item_order_id :: int
  product_id :: int
  quantity :: real
  unit_price :: real

record order_db =
  orders :: "order list"
  order_items :: "order_item list"

record order_item_create =
  req_product_id :: int
  req_quantity :: real

record order_create =
  req_customer_name :: string
  req_customer_email :: string
  req_items :: "order_item_create list"

datatype order_status_update = OrderStatusUpdate (su_status: string)

text \<open>An \<open>OrderItem\<close> that was added to the session and has no id yet.\<close>

record pending_item =
  p_order_id :: int
  p_product_id :: int
  p_quantity :: real
  p_unit_price :: real

text \<open>Work scheduled with \<open>background_tasks.add_task\<close>.\<close>

datatype task =
    ProcessOrder int
  | NotifyOrderStatus int string string

text \<open>
  \<open>OrderStatusUpdate.status\<close> is validated with the pattern
  \<open>^(pending|processing|processed|failed|delivered)$\<close> by \<open>re.match\<close>, where
  \<open>$\<close> also matches just before a newline that ends the string.
\<close>

definition order_statuses :: "string list" where
  "order_statuses = [''pending'', ''processing'', ''processed'', ''failed'', ''delivered'']"

definition OrderStatusUpdate_valid :: "string \<Rightarrow> bool" where
  "OrderStatusUpdate_valid s = list_ex (\<lambda>t. s = t \<or> s = t @ [CHR 0x0A]) order_statuses"

subsection \<open>Storage\<close>

text \<open>
  Modelled from the spec: the engine and the session factory of the order service (its
  \<open>database.py\<close>) are not among the sources. The specification has an order own
  its lines, one to many with cascade delete, and calls the delete after a failed
  creation a compensating delete, not a transaction. The session is taken with the
  settings that \<open>database.py\<close> of the inventory service gives its own: SQLite by
  default, \<open>autocommit=False\<close>, \<open>autoflush=False\<close>.
\<close>

definition get_order :: "order_db \<Rightarrow> int \<Rightarrow> order option" where
  "get_order db oid = find (\<lambda>r. order_id r = oid) (orders db)"

definition items_of :: "order_db \<Rightarrow> int \<Rightarrow> order_item list" where
  "items_of db oid = filter (\<lambda>i. item_order_id i = oid) (order_items db)"

text \<open>Committing a changed \<open>Order\<close> object writes its row.\<close>

definition commit_order :: "order_db \<Rightarrow> order \<Rightarrow> order_db" where
  "commit_order db ord =
     db\<lparr>orders := map (\<lambda>r. if order_id r = order_id ord then ord else r) (orders db)\<rparr>"

text \<open>Committing pending items inserts them one by one, each with the next id.\<close>

fun flush_items :: "order_item list \<Rightarrow> pending_item list \<Rightarrow> order_item list" where
  "flush_items tbl [] = tbl"
| "flush_items tbl (p # ps) =
     flush_items
       (tbl @ [\<lparr>item_id = next_id (map item_id tbl), item_order_id = p_order_id p,
                product_id = p_product_id p, quantity = p_quantity p,
                unit_price = p_unit_price p\<rparr>]) ps"

text \<open>
  \<open>db.delete(db_order); db.commit()\<close>: without autoflush the delete cascades to
  the items of the order that are in storage at that moment; the commit inserts what
  is pending in the session and then deletes the order and those items.
\<close>

definition delete_order :: "order_db \<Rightarrow> order \<Rightarrow> pending_item list \<Rightarrow> order_db" where
  "delete_order db db_order pend =
     (let cascade = map item_id (items_of db (order_id db_order))
      in \<lparr>orders = filter (\<lambda>r. order_id r \<noteq> order_id db_order) (orders db),
          order_items = filter (\<lambda>i. item_id i \<notin> set cascade)
                          (flush_items (order_items db) pend)\<rparr>)"

subsection \<open>Calls to the collaborators\<close>

definition get_product_info :: "world \<Rightarrow> int \<Rightarrow> trace \<Rightarrow> product_json option \<times> trace" where
  "get_product_info w pid tr =
     (case products w tr pid of
        Unreachable \<Rightarrow> None
      | Response status_code body \<Rightarrow> if status_code = 200 then body else None,
      tr @ [GetProduct pid])"

definition check_inventory :: "world \<Rightarrow> int \<Rightarrow> real \<Rightarrow> trace \<Rightarrow> bool \<times> trace" where
  "check_inventory w pid qty tr =
     (case inventory_get w tr pid of
        Unreachable \<Rightarrow> False
      | Response status_code body \<Rightarrow>
          if status_code = 200
          then (case body of None \<Rightarrow> False | Some inventory \<Rightarrow> inv_quantity inventory \<ge> qty)
          else False,
      tr @ [GetInventory pid])"

definition update_inventory :: "world \<Rightarrow> int \<Rightarrow> real \<Rightarrow> trace \<Rightarrow> bool \<times> trace" where
  "update_inventory w pid qty tr =
     (case inventory_adjust w tr pid (- qty) False of
        Unreachable \<Rightarrow> False
      | Response status_code body \<Rightarrow> status_code = 200,
      tr @ [PostAdjust pid (- qty) False])"

text \<open>The post is sent, its answer is not read and an exception is only logged.\<close>

definition notify_order_status :: "int \<Rightarrow> string \<Rightarrow> string \<Rightarrow> trace \<Rightarrow> trace" where
  "notify_order_status oid st email tr = tr @ [PostNotification (OrderStatus oid st email)]"

subsection \<open>Fulfillment\<close>

text \<open>The first loop of \<open>process_order\<close>: it breaks at the first failed check.\<close>

fun check_all :: "world \<Rightarrow> order_item list \<Rightarrow> trace \<Rightarrow> bool \<times> trace" where
  "check_all w [] tr = (True, tr)"
| "check_all w (item # rest) tr =
     (case check_inventory w (product_id item) (quantity item) tr of
        (ok, tr') \<Rightarrow> if \<not> ok then (False, tr') else check_all w rest tr')"

text \<open>The second loop: the result of \<open>update_inventory\<close> is dropped.\<close>

fun update_all :: "world \<Rightarrow> order_item list \<Rightarrow> trace \<Rightarrow> trace" where
  "update_all w [] tr = tr"
| "update_all w (item # rest) tr =
     update_all w rest (snd (update_inventory w (product_id item) (quantity item) tr))"

definition process_order :: "world \<Rightarrow> timestamp \<Rightarrow> int \<Rightarrow> order_db \<times> trace \<Rightarrow> order_db \<times> trace" where
  "process_order w now oid s =
     (case s of (db, tr) \<Rightarrow>
      (case get_order db oid of
         None \<Rightarrow> (db, tr)
       | Some ord \<Rightarrow>
           (case check_all w (items_of db oid) tr of
              (inventory_available, tr1) \<Rightarrow>
                if \<not> inventory_available
                then (commit_order db (ord\<lparr>status := ''failed'', updated_at := Some now\<rparr>),
                      notify_order_status (order_id ord) ''failed'' (customer_email ord) tr1)
                else (commit_order db (ord\<lparr>status := ''processed'', updated_at := Some now\<rparr>),
                      notify_order_status (order_id ord) ''processed'' (customer_email ord)
                        (update_all w (items_of db oid) tr1)))))"

subsection \<open>Endpoints\<close>

text \<open>
  The handlers take a request body that has passed the validation of its schema. For
  \<open>OrderCreate\<close> (a name of 1 to 100 characters, an email address, at least one
  line, positive product ids and quantities) nothing below depends on it.
\<close>

text \<open>The loop of \<open>create_order\<close>: the product id that did not resolve (if any),
  the items added to the session so far, and the trace.\<close>

fun add_items ::
  "world \<Rightarrow> int \<Rightarrow> order_item_create list \<Rightarrow> pending_item list \<Rightarrow> trace
     \<Rightarrow> int option \<times> pending_item list \<times> trace" where
  "add_items w oid [] pend tr = (None, pend, tr)"
| "add_items w oid (item # rest) pend tr =
     (case get_product_info w (req_product_id item) tr of
        (None, tr') \<Rightarrow> (Some (req_product_id item), pend, tr')
      | (Some product, tr') \<Rightarrow>
          add_items w oid rest
            (pend @ [\<lparr>p_order_id = oid, p_product_id = req_product_id item,
                      p_quantity = req_quantity item, p_unit_price = price product\<rparr>]) tr')"

definition create_order ::
  "world \<Rightarrow> timestamp \<Rightarrow> order_create \<Rightarrow> order_db \<times> trace
     \<Rightarrow> (http_error + order \<times> order_item list) \<times> order_db \<times> trace \<times> task list" where
  "create_order w now req s =
     (case s of (db, tr) \<Rightarrow>
      (let db_order = \<lparr>order_id = next_id (map order_id (orders db)),
                       customer_name = req_customer_name req,
                       customer_email = req_customer_email req,
                       status = ''pending'', created_at = now, updated_at = None\<rparr>;
           db1 = db\<lparr>orders := orders db @ [db_order]\<rparr>
       in (case add_items w (order_id db_order) (req_items req) [] tr of
             (Some missing, pend, tr') \<Rightarrow>
               (Inl (HTTPException 404 (ProductIdNotFound missing)),
                delete_order db1 db_order pend, tr', [])
           | (None, pend, tr') \<Rightarrow>
               (let db2 = db1\<lparr>order_items := flush_items (order_items db1) pend\<rparr>
                in (Inr (db_order, items_of db2 (order_id db_order)), db2, tr',
                    [ProcessOrder (order_id db_order)])))))"

definition update_order_status ::
  "timestamp \<Rightarrow> int \<Rightarrow> order_status_update \<Rightarrow> order_db
     \<Rightarrow> (http_error + order \<times> order_item list) \<times> order_db \<times> task list" where
  "update_order_status now oid su db =
     (case get_order db oid of
        None \<Rightarrow> (Inl (HTTPException 404 OrderNotFound), db, [])
      | Some ord \<Rightarrow>
          (let ord' = ord\<lparr>status := su_status su, updated_at := Some now\<rparr>;
               db' = commit_order db ord'
           in (Inr (ord', items_of db' oid), db',
               [NotifyOrderStatus (order_id ord') (status ord') (customer_email ord')])))"

text \<open>Background tasks run after the response, in the order they were added.\<close>

fun run_task :: "world \<Rightarrow> timestamp \<Rightarrow> task \<Rightarrow> order_db \<times> trace \<Rightarrow> order_db \<times> trace" where
  "run_task w now (ProcessOrder oid) s = process_order w now oid s"
| "run_task w now (NotifyOrderStatus oid st email) s =
     (fst s, notify_order_status oid st email (snd s))"

definition run_tasks :: "world \<Rightarrow> timestamp \<Rightarrow> task list \<Rightarrow> order_db \<times> trace \<Rightarrow> order_db \<times> trace" where
  "run_tasks w now tasks s = fold (run_task w now) tasks s"

text \<open>The status update as a whole: the handler, then its background tasks.\<close>

definition status_update_operation ::
  "world \<Rightarrow> timestamp \<Rightarrow> int \<Rightarrow> order_status_update \<Rightarrow> order_db \<times> trace
     \<Rightarrow> (http_error + order \<times> order_item list) \<times> order_db \<times> trace" where
  "status_update_operation w now oid su s =
     (case update_order_status now oid su (fst s) of
        (res, db', tasks) \<Rightarrow> (res, run_tasks w now tasks (db', snd s)))"

text \<open>\<open>PUT /orders/{order_id}/status\<close>: the body is validated against
  \<open>OrderStatusUpdate\<close> before the handler runs.\<close>

definition put_order_status ::
  "world \<Rightarrow> timestamp \<Rightarrow> int \<Rightarrow> string \<Rightarrow> order_db \<times> trace
     \<Rightarrow> (http_error + order \<times> order_item list) \<times> order_db \<times> trace" where
  "put_order_status w now oid body s =
     (if OrderStatusUpdate_valid body
      then status_update_operation w now oid (OrderStatusUpdate body) s
      else (Inl ValidationError, s))"

section \<open>Inventory service\<close>

subsection \<open>Schemas\<close>

record inventory_item_create =
  ic_product_id :: int
  ic_quantity :: real
  ic_location :: "string option"

text \<open>\<open>InventoryItemUpdate\<close>: a field is unset (\<open>None\<close>), set to null
  (\<open>Some None\<close>) or set to a value; \<open>dict(exclude_unset=True)\<close> keeps the set
  ones.\<close>

record inventory_item_update =
  iu_quantity :: "real option option"
  iu_location :: "string option option"

record inventory_adjustment =
  amount :: real
  allow_negative :: bool

definition location_valid :: "string option \<Rightarrow> bool" where
  "location_valid l = (case l of None \<Rightarrow> True | Some t \<Rightarrow> length t \<le> 100)"

definition InventoryItemCreate_valid :: "inventory_item_create \<Rightarrow> bool" where
  "InventoryItemCreate_valid item =
     (ic_product_id item > 0 \<and> ic_quantity item \<ge> 0 \<and> location_valid (ic_location item))"

definition InventoryItemUpdate_valid :: "inventory_item_update \<Rightarrow> bool" where
  "InventoryItemUpdate_valid item =
     ((case iu_quantity item of Some (Some q) \<Rightarrow> q \<ge> 0 | _ \<Rightarrow> True) \<and>
      (case iu_location item of Some l \<Rightarrow> location_valid l | None \<Rightarrow> True))"

text \<open>The background task \<open>notify_low_stock\<close> keeps the row it was given.\<close>

datatype inventory_task = NotifyLowStock inventory_item

subsection \<open>Storage and collaborators\<close>

type_synonym inventory_db = "inventory_item list"

definition get_item :: "inventory_db \<Rightarrow> int \<Rightarrow> inventory_item option" where
  "get_item db pid = find (\<lambda>r. inv_product_id r = pid) db"

definition commit_item :: "inventory_db \<Rightarrow> inventory_item \<Rightarrow> inventory_db" where
  "commit_item db it = map (\<lambda>r. if inv_id r = inv_id it then it else r) db"

definition verify_product_exists :: "world \<Rightarrow> int \<Rightarrow> trace \<Rightarrow> bool \<times> trace" where
  "verify_product_exists w pid tr =
     (case products w tr pid of
        Unreachable \<Rightarrow> False
      | Response status_code body \<Rightarrow> status_code = 200,
      tr @ [GetProduct pid])"

definition notify_low_stock :: "int \<Rightarrow> inventory_item \<Rightarrow> trace \<Rightarrow> trace" where
  "notify_low_stock threshold it tr =
     tr @ [PostNotification (LowStock (inv_product_id it) (inv_quantity it) threshold)]"

definition low_stock_tasks :: "int \<Rightarrow> inventory_item \<Rightarrow> inventory_task list" where
  "low_stock_tasks threshold it =
     (if inv_quantity it \<le> of_int threshold then [NotifyLowStock it] else [])"

subsection \<open>Handlers\<close>

text \<open>Every handler takes \<open>STOCK_THRESHOLD\<close> (read from the environment, 10 by
  default) as \<open>threshold\<close>.\<close>

definition create_inventory_item ::
  "world \<Rightarrow> int \<Rightarrow> inventory_item_create \<Rightarrow> inventory_db \<times> trace
     \<Rightarrow> (http_error + inventory_item) \<times> inventory_db \<times> trace \<times> inventory_task list" where
  "create_inventory_item w threshold item s =
     (case s of (db, tr) \<Rightarrow>
      (case verify_product_exists w (ic_product_id item) tr of
         (product_exists, tr') \<Rightarrow>
           if \<not> product_exists
           then (Inl (HTTPException 404 ProductNotFound), db, tr', [])
           else (case get_item db (ic_product_id item) of
                   Some db_item \<Rightarrow>
                     (let it = db_item\<lparr>inv_quantity := ic_quantity item,
                                         location := ic_location item\<rparr>
                      in (Inr it, commit_item db it, tr', low_stock_tasks threshold it))
                 | None \<Rightarrow>
                     (let it = \<lparr>inv_id = next_id (map inv_id db),
                                 inv_product_id = ic_product_id item,
                                 inv_quantity = ic_quantity item,
                                 location = ic_location item\<rparr>
                      in (Inr it, db @ [it], tr', low_stock_tasks threshold it)))))"

text \<open>
  \<open>update_inventory_item\<close> sets every field the request sets. A quantity set to
  null reaches the \<open>nullable=False\<close> column, the commit raises, and nothing is
  written.
\<close>

definition update_inventory_item ::
  "world \<Rightarrow> int \<Rightarrow> int \<Rightarrow> inventory_item_update \<Rightarrow> inventory_db \<times> trace
     \<Rightarrow> (http_error + inventory_item) \<times> inventory_db \<times> trace \<times> inventory_task list" where
  "update_inventory_item w threshold pid item s =
     (case s of (db, tr) \<Rightarrow>
      (case verify_product_exists w pid tr of
         (product_exists, tr') \<Rightarrow>
           if \<not> product_exists
           then (Inl (HTTPException 404 ProductNotFound), db, tr', [])
           else (case get_item db pid of
                   None \<Rightarrow> (Inl (HTTPException 404 InventoryItemNotFound), db, tr', [])
                 | Some db_item \<Rightarrow>
                     (case iu_quantity item of
                        Some None \<Rightarrow> (Inl InternalServerError, db, tr', [])
                      | _ \<Rightarrow>
                        (let it = db_item
                               \<lparr>inv_quantity :=
                                  (case iu_quantity item of
                                     Some (Some q) \<Rightarrow> q | _ \<Rightarrow> inv_quantity db_item),
                                location :=
                                  (case iu_location item of
                                     Some l \<Rightarrow> l | None \<Rightarrow> location db_item)\<rparr>
                         in (Inr it, commit_item db it, tr', low_stock_tasks threshold it))))))"

definition adjust_inventory ::
  "int \<Rightarrow> int \<Rightarrow> inventory_adjustment \<Rightarrow> inventory_db
     \<Rightarrow> (http_error + inventory_item) \<times> inventory_db \<times> inventory_task list" where
  "adjust_inventory threshold pid adjustment db =
     (case get_item db pid of
        None \<Rightarrow> (Inl (HTTPException 404 InventoryItemNotFound), db, [])
      | Some db_item \<Rightarrow>
          (let new_quantity = inv_quantity db_item + amount adjustment
           in if new_quantity < 0 \<and> \<not> allow_negative adjustment
              then (Inl (HTTPException 400 NegativeInventory), db, [])
              else (let it = db_item\<lparr>inv_quantity := new_quantity\<rparr>
                    in (Inr it, commit_item db it, low_stock_tasks threshold it))))"

subsection \<open>Endpoints\<close>

text \<open>
  An endpoint validates the body against its schema and runs the handler. What the
  handler returns is validated against the response model \<open>schemas.InventoryItem\<close>
  (product id above 0, quantity at least 0, location of at most 100 characters). If it
  passes, it is the answer and the background tasks run after it. If it does not, the
  caller gets a 500 and the tasks never run; what the handler committed stays.
\<close>

definition InventoryItem_valid :: "inventory_item \<Rightarrow> bool" where
  "InventoryItem_valid it =
     (inv_product_id it > 0 \<and> inv_quantity it \<ge> 0 \<and> location_valid (location it))"

fun run_inventory_task :: "int \<Rightarrow> inventory_task \<Rightarrow> trace \<Rightarrow> trace" where
  "run_inventory_task threshold (NotifyLowStock it) tr = notify_low_stock threshold it tr"

definition serialize_response ::
  "int \<Rightarrow> (http_error + inventory_item) \<times> inventory_db \<times> trace \<times> inventory_task list
     \<Rightarrow> (http_error + inventory_item) \<times> inventory_db \<times> trace" where
  "serialize_response threshold r =
     (case r of (res, db', tr', tasks) \<Rightarrow>
        (case res of
           Inl e \<Rightarrow> (Inl e, db', tr')
         | Inr it \<Rightarrow>
             if InventoryItem_valid it
             then (Inr it, db', fold (run_inventory_task threshold) tasks tr')
             else (Inl InternalServerError, db', tr')))"

definition post_inventory ::
  "world \<Rightarrow> int \<Rightarrow> inventory_item_create \<Rightarrow> inventory_db \<times> trace
     \<Rightarrow> (http_error + inventory_item) \<times> inventory_db \<times> trace" where
  "post_inventory w threshold item s =
     (if \<not> InventoryItemCreate_valid item then (Inl ValidationError, s)
      else serialize_response threshold (create_inventory_item w threshold item s))"

definition put_inventory ::
  "world \<Rightarrow> int \<Rightarrow> int \<Rightarrow> inventory_item_update \<Rightarrow> inventory_db \<times> trace
     \<Rightarrow> (http_error + inventory_item) \<times> inventory_db \<times> trace" where
  "put_inventory w threshold pid item s =
     (if \<not> InventoryItemUpdate_valid item then (Inl ValidationError, s)
      else serialize_response threshold (update_inventory_item w threshold pid item s))"

definition post_inventory_adjust ::
  "int \<Rightarrow> int \<Rightarrow> inventory_adjustment \<Rightarrow> inventory_db \<times> trace
     \<Rightarrow> (http_error + inventory_item) \<times> inventory_db \<times> trace" where
  "post_inventory_adjust threshold pid adjustment s =
     (case adjust_inventory threshold pid adjustment (fst s) of
        (res, db', tasks) \<Rightarrow> serialize_response threshold (res, db', snd s, tasks))"

text \<open>The invariant: no stored quantity is negative.\<close>

definition quantities_nonneg :: "inventory_db \<Rightarrow> bool" where
  "quantities_nonneg db = list_all (\<lambda>r. 0 \<le> inv_quantity r) db"

section \<open>Vocabulary of the statements\<close>

text \<open>The calls a loop sends for a list of lines, and the answer a line gets when
  its turn comes, that is after the calls for the lines before it.\<close>

definition check_calls :: "order_item list \<Rightarrow> trace" where
  "check_calls its = map (\<lambda>i. GetInventory (product_id i)) its"

definition decrement_calls :: "order_item list \<Rightarrow> trace" where
  "decrement_calls its = map (\<lambda>i. PostAdjust (product_id i) (- quantity i) False) its"

definition check_passes :: "world \<Rightarrow> trace \<Rightarrow> order_item list \<Rightarrow> nat \<Rightarrow> bool" where
  "check_passes w tr its k =
     fst (check_inventory w (product_id (its ! k)) (quantity (its ! k))
            (tr @ check_calls (take k its)))"

text \<open>The answer the adjustment of a line gets when its turn comes.\<close>

definition decrement_succeeds :: "world \<Rightarrow> trace \<Rightarrow> order_item list \<Rightarrow> nat \<Rightarrow> bool" where
  "decrement_succeeds w tr its k =
     fst (update_inventory w (product_id (its ! k)) (quantity (its ! k))
            (tr @ decrement_calls (take k its)))"

text \<open>The requests that change inventory.\<close>

definition is_adjust :: "request \<Rightarrow> bool" where
  "is_adjust r = (case r of PostAdjust pid amt neg \<Rightarrow> True | _ \<Rightarrow> False)"

text \<open>The product lookups of \<open>create_order\<close> for a list of requested lines,
  and what the lookup of a line returns when its turn comes.\<close>

definition lookup_calls :: "order_item_create list \<Rightarrow> trace" where
  "lookup_calls items = map (\<lambda>i. GetProduct (req_product_id i)) items"

definition product_lookup ::
  "world \<Rightarrow> trace \<Rightarrow> order_item_create list \<Rightarrow> nat \<Rightarrow> product_json option" where
  "product_lookup w tr items k =
     fst (get_product_info w (req_product_id (items ! k)) (tr @ lookup_calls (take k items)))"

section \<open>Example data\<close>

text \<open>The example of the specification: an order with the lines (product 1,
  quantity 5) and (product 2, quantity 3), product 1 priced 10 and product 2 priced 20.
  In \<open>world_ok\<close> every product has 8 on hand and every call succeeds.\<close>

definition world_ok :: world where
  "world_ok =
     \<lparr>products = (\<lambda>tr pid. Response 200
          (Some \<lparr>pj_id = pid, pj_name = ''item'', pj_description = None,
                  price = (if pid = 1 then 10 else 20), sku = ''SKU-1''\<rparr>)),
      inventory_get = (\<lambda>tr pid. Response 200
          (Some \<lparr>inv_id = pid, inv_product_id = pid, inv_quantity = 8, location = None\<rparr>)),
      inventory_adjust = (\<lambda>tr pid amt neg. Response 200 None)\<rparr>"

definition order_ex :: order where
  "order_ex = \<lparr>order_id = 1, customer_name = ''Ann'', customer_email = ''ann@example.com'',
                status = ''pending'', created_at = 3, updated_at = None\<rparr>"

definition db_ex :: order_db where
  "db_ex =
     \<lparr>orders = [order_ex],
      order_items =
        [\<lparr>item_id = 1, item_order_id = 1, product_id = 1, quantity = 5, unit_price = 10\<rparr>,
         \<lparr>item_id = 2, item_order_id = 1, product_id = 2, quantity = 3, unit_price = 20\<rparr>]\<rparr>"

text \<open>In \<open>world_short\<close> product 1 has only 2 on hand. In \<open>world_adjust_down\<close>
  the checks pass and every adjustment fails: the one for product 1 raises, the
  others are answered with 400.\<close>

definition world_short :: world where
  "world_short = world_ok\<lparr>inventory_get := (\<lambda>tr pid. Response 200
      (Some \<lparr>inv_id = pid, inv_product_id = pid,
              inv_quantity = (if pid = 1 then 2 else 8), location = None\<rparr>))\<rparr>"

definition world_adjust_down :: world where
  "world_adjust_down = world_ok\<lparr>inventory_adjust := (\<lambda>tr pid amt neg.
      if pid = 1 then Unreachable else Response 400 None)\<rparr>"

text \<open>In \<open>world_missing\<close> product 2 is unknown to the product service.
  \<open>req_ex\<close> asks for the two lines of the example. \<open>inventory_ex\<close> is a
  small inventory table.\<close>

definition world_missing :: world where
  "world_missing = world_ok\<lparr>products := (\<lambda>tr pid.
      if pid = 2 then Response 404 None else products world_ok tr pid)\<rparr>"

definition req_ex :: order_create where
  "req_ex = \<lparr>req_customer_name = ''Bob'', req_customer_email = ''bob@example.com'',
              req_items = [\<lparr>req_product_id = 1, req_quantity = 5\<rparr>,
                           \<lparr>req_product_id = 2, req_quantity = 3\<rparr>]\<rparr>"

definition inventory_ex :: inventory_db where
  "inventory_ex = [\<lparr>inv_id = 1, inv_product_id = 1, inv_quantity = 8, location = None\<rparr>,
                   \<lparr>inv_id = 2, inv_product_id = 2, inv_quantity = 2, location = Some ''A''\<rparr>]"

section \<open>Fulfillment: the two loops\<close>

lemma snd_check_inventory: "snd (check_inventory w pid qty tr) = tr @ [GetInventory pid]"
  by (simp add: check_inventory_def)

lemma snd_update_inventory:
  "snd (update_inventory w pid qty tr) = tr @ [PostAdjust pid (- qty) False]"
  by (simp add: update_inventory_def)

lemma check_passes_0:
  "check_passes w tr (x # xs) 0 = fst (check_inventory w (product_id x) (quantity x) tr)"
  by (simp add: check_passes_def check_calls_def)

lemma check_passes_Suc:
  "check_passes w tr (x # xs) (Suc k) = check_passes w (tr @ [GetInventory (product_id x)]) xs k"
  by (simp add: check_passes_def check_calls_def)

lemma check_all_Cons:
  "check_all w (x # xs) tr =
     (if fst (check_inventory w (product_id x) (quantity x) tr)
      then check_all w xs (tr @ [GetInventory (product_id x)])
      else (False, tr @ [GetInventory (product_id x)]))"
  using snd_check_inventory [of w "product_id x" "quantity x" tr]
  by (cases "check_inventory w (product_id x) (quantity x) tr") auto

lemma check_all_pass:
  "(\<forall>k<length its. check_passes w tr its k)
     \<Longrightarrow> check_all w its tr = (True, tr @ check_calls its)"
proof (induction its arbitrary: tr)
  case Nil
  then show ?case by (simp add: check_calls_def)
next
  case (Cons x xs)
  from Cons.prems have h0: "fst (check_inventory w (product_id x) (quantity x) tr)"
    using check_passes_0 [of w tr x xs] by auto
  have "\<forall>k<length xs. check_passes w (tr @ [GetInventory (product_id x)]) xs k"
    using Cons.prems check_passes_Suc [of w tr x xs] by auto
  from Cons.IH [OF this] h0
  show ?case by (simp only: check_all_Cons) (simp add: check_calls_def)
qed

lemma check_all_fail:
  "k < length its \<Longrightarrow> (\<forall>i<k. check_passes w tr its i) \<Longrightarrow> \<not> check_passes w tr its k
     \<Longrightarrow> check_all w its tr = (False, tr @ check_calls (take (Suc k) its))"
proof (induction its arbitrary: tr k)
  case Nil
  then show ?case by simp
next
  case (Cons x xs)
  show ?case
  proof (cases k)
    case 0
    with Cons.prems have "\<not> fst (check_inventory w (product_id x) (quantity x) tr)"
      by (simp add: check_passes_0)
    with 0 show ?thesis by (simp only: check_all_Cons) (simp add: check_calls_def)
  next
    case (Suc j)
    from Cons.prems Suc have h0: "fst (check_inventory w (product_id x) (quantity x) tr)"
      using check_passes_0 [of w tr x xs] by auto
    have a: "j < length xs" using Cons.prems Suc by simp
    have b: "\<forall>i<j. check_passes w (tr @ [GetInventory (product_id x)]) xs i"
      using Cons.prems Suc check_passes_Suc [of w tr x xs] by auto
    have c: "\<not> check_passes w (tr @ [GetInventory (product_id x)]) xs j"
      using Cons.prems Suc check_passes_Suc [of w tr x xs j] by simp
    from Cons.IH [OF a b c] h0 Suc
    show ?thesis by (simp only: check_all_Cons) (simp add: check_calls_def)
  qed
qed

lemma update_all_calls: "update_all w its tr = tr @ decrement_calls its"
  by (induction its arbitrary: tr) (simp_all add: decrement_calls_def snd_update_inventory)

section \<open>Orders in storage\<close>

lemma find_order_id: "find (\<lambda>r. order_id r = oid) xs = Some ord \<Longrightarrow> order_id ord = oid"
  by (induction xs) (auto split: if_splits)

lemma find_commit:
  "find (\<lambda>r. order_id r = oid) xs = Some ord \<Longrightarrow> order_id ord' = oid
     \<Longrightarrow> find (\<lambda>r. order_id r = oid) (map (\<lambda>r. if order_id r = oid then ord' else r) xs)
         = Some ord'"
  by (induction xs) (auto split: if_splits)

lemma get_order_commit:
  "get_order db oid = Some ord \<Longrightarrow> order_id ord' = oid
     \<Longrightarrow> get_order (commit_order db ord') oid = Some ord'"
  by (simp add: get_order_def commit_order_def find_commit)

lemma get_order_id: "get_order db oid = Some ord \<Longrightarrow> order_id ord = oid"
  unfolding get_order_def by (rule find_order_id)

lemma items_of_commit: "items_of (commit_order db ord) oid = items_of db oid"
  by (simp add: items_of_def commit_order_def)

lemma order_items_commit: "order_items (commit_order db ord) = order_items db"
  by (simp add: commit_order_def)

lemma items_of_db_ex:
  "items_of db_ex 1 =
     [\<lparr>item_id = 1, item_order_id = 1, product_id = 1, quantity = 5, unit_price = 10\<rparr>,
      \<lparr>item_id = 2, item_order_id = 1, product_id = 2, quantity = 3, unit_price = 20\<rparr>]"
  by (simp add: items_of_def db_ex_def)

lemma get_order_db_ex: "get_order db_ex 1 = Some order_ex"
  by (simp add: get_order_def db_ex_def order_ex_def)

section \<open>Fulfillment with sufficient inventory\<close>

text \<open>
  C1. Let the order be in storage and let every line pass its inventory check when its
  turn comes. Then \<open>process_order\<close> leaves the order with status \<open>processed\<close> and
  the updated-timestamp set to the current time, changes no order line, and sends
  exactly these calls, in this order: one inventory check per line, one adjustment per
  line with the negated quantity of the line and \<open>allow_negative\<close> false, and one
  \<open>processed\<close> notification to the customer's email.
\<close>

theorem process_order_processed:
  assumes ex: "get_order db oid = Some ord"
    and ok: "\<forall>k<length (items_of db oid). check_passes w tr (items_of db oid) k"
  shows "get_order (fst (process_order w now oid (db, tr))) oid
           = Some (ord\<lparr>status := ''processed'', updated_at := Some now\<rparr>)
       \<and> order_items (fst (process_order w now oid (db, tr))) = order_items db
       \<and> snd (process_order w now oid (db, tr))
           = tr @ check_calls (items_of db oid) @ decrement_calls (items_of db oid)
               @ [PostNotification (OrderStatus oid ''processed'' (customer_email ord))]"
proof -
  have id: "order_id ord = oid" using ex by (rule get_order_id)
  have ca: "check_all w (items_of db oid) tr = (True, tr @ check_calls (items_of db oid))"
    using ok by (rule check_all_pass)
  have po: "process_order w now oid (db, tr)
      = (commit_order db (ord\<lparr>status := ''processed'', updated_at := Some now\<rparr>),
         notify_order_status oid ''processed'' (customer_email ord)
           (update_all w (items_of db oid) (tr @ check_calls (items_of db oid))))"
    by (simp add: process_order_def ex ca id)
  have g: "get_order (commit_order db (ord\<lparr>status := ''processed'', updated_at := Some now\<rparr>)) oid
      = Some (ord\<lparr>status := ''processed'', updated_at := Some now\<rparr>)"
    using ex by (rule get_order_commit) (simp add: id)
  show ?thesis
    by (simp add: po g order_items_commit update_all_calls notify_order_status_def)
qed

theorem process_order_processed_witness:
  "get_order (fst (process_order world_ok 7 1 (db_ex, []))) 1
     = Some (order_ex\<lparr>status := ''processed'', updated_at := Some 7\<rparr>)
   \<and> snd (process_order world_ok 7 1 (db_ex, []))
     = [GetInventory 1, GetInventory 2, PostAdjust 1 (- 5) False, PostAdjust 2 (- 3) False,
        PostNotification (OrderStatus 1 ''processed'' ''ann@example.com'')]"
proof -
  have ok: "\<forall>k<length (items_of db_ex 1). check_passes world_ok [] (items_of db_ex 1) k"
    by (simp add: items_of_db_ex check_passes_def check_inventory_def world_ok_def
        All_less_Suc numeral_2_eq_2)
  from process_order_processed [OF get_order_db_ex ok, of 7]
  show ?thesis
    by (simp add: items_of_db_ex check_calls_def decrement_calls_def order_ex_def)
qed

section \<open>Fulfillment with insufficient inventory\<close>

lemma filter_adjust_check_calls: "filter is_adjust (check_calls its) = []"
  by (induction its) (simp_all add: check_calls_def is_adjust_def)

text \<open>
  C2. Let the order be in storage and let line \<open>k\<close> (counted from 0) be the first
  whose inventory check does not pass. Then \<open>process_order\<close> leaves the order with
  status \<open>failed\<close> and the updated-timestamp set to the current time, changes no
  order line, and sends exactly these calls: the checks of the lines 0 to \<open>k\<close> and
  one \<open>failed\<close> notification. No line after \<open>k\<close> is checked and no adjustment
  is among the calls, so no inventory is changed.
\<close>

theorem process_order_failed:
  assumes ex: "get_order db oid = Some ord"
    and k: "k < length (items_of db oid)"
    and before: "\<forall>i<k. check_passes w tr (items_of db oid) i"
    and fails: "\<not> check_passes w tr (items_of db oid) k"
  shows "get_order (fst (process_order w now oid (db, tr))) oid
           = Some (ord\<lparr>status := ''failed'', updated_at := Some now\<rparr>)
       \<and> order_items (fst (process_order w now oid (db, tr))) = order_items db
       \<and> snd (process_order w now oid (db, tr))
           = tr @ check_calls (take (Suc k) (items_of db oid))
               @ [PostNotification (OrderStatus oid ''failed'' (customer_email ord))]
       \<and> filter is_adjust (drop (length tr) (snd (process_order w now oid (db, tr)))) = []"
proof -
  have id: "order_id ord = oid" using ex by (rule get_order_id)
  have ca: "check_all w (items_of db oid) tr
      = (False, tr @ check_calls (take (Suc k) (items_of db oid)))"
    using k before fails by (rule check_all_fail)
  have po: "process_order w now oid (db, tr)
      = (commit_order db (ord\<lparr>status := ''failed'', updated_at := Some now\<rparr>),
         notify_order_status oid ''failed'' (customer_email ord)
           (tr @ check_calls (take (Suc k) (items_of db oid))))"
    by (simp add: process_order_def ex ca id)
  have g: "get_order (commit_order db (ord\<lparr>status := ''failed'', updated_at := Some now\<rparr>)) oid
      = Some (ord\<lparr>status := ''failed'', updated_at := Some now\<rparr>)"
    using ex by (rule get_order_commit) (simp add: id)
  have na: "\<not> is_adjust (PostNotification (OrderStatus oid ''failed'' (customer_email ord)))"
    by (simp add: is_adjust_def)
  show ?thesis
    by (simp add: po g order_items_commit notify_order_status_def filter_adjust_check_calls na)
qed

theorem process_order_failed_witness:
  "get_order (fst (process_order world_short 7 1 (db_ex, []))) 1
     = Some (order_ex\<lparr>status := ''failed'', updated_at := Some 7\<rparr>)
   \<and> snd (process_order world_short 7 1 (db_ex, []))
     = [GetInventory 1, PostNotification (OrderStatus 1 ''failed'' ''ann@example.com'')]"
proof -
  have k: "0 < length (items_of db_ex 1)" by (simp add: items_of_db_ex)
  have before: "\<forall>i<0. check_passes world_short [] (items_of db_ex 1) i" by simp
  have fails: "\<not> check_passes world_short [] (items_of db_ex 1) 0"
    by (simp add: items_of_db_ex check_passes_def check_inventory_def world_short_def
        world_ok_def)
  from process_order_failed [OF get_order_db_ex k before fails, of 7]
  show ?thesis
    by (simp add: items_of_db_ex check_calls_def order_ex_def)
qed

section \<open>Failing adjustments\<close>

text \<open>
  C6. Let the order be in storage, let every line pass its check, and let the
  adjustment of line \<open>j\<close> fail when its turn comes (the call raises or is answered
  with a status other than 200). Then the calls sent are still the checks, then the
  adjustments of all lines in line order (those before \<open>j\<close>, then the one of
  \<open>j\<close> and all after it) and nothing that undoes one, then the \<open>processed\<close>
  notification; and the order ends with status \<open>processed\<close>.
\<close>

theorem decrement_failure_does_not_abort:
  assumes ex: "get_order db oid = Some ord"
    and ok: "\<forall>k<length (items_of db oid). check_passes w tr (items_of db oid) k"
    and j: "j < length (items_of db oid)"
    and fails: "\<not> decrement_succeeds w (tr @ check_calls (items_of db oid)) (items_of db oid) j"
  shows "snd (process_order w now oid (db, tr))
           = tr @ check_calls (items_of db oid)
               @ decrement_calls (take j (items_of db oid))
               @ decrement_calls (drop j (items_of db oid))
               @ [PostNotification (OrderStatus oid ''processed'' (customer_email ord))]
       \<and> get_order (fst (process_order w now oid (db, tr))) oid
           = Some (ord\<lparr>status := ''processed'', updated_at := Some now\<rparr>)"
proof -
  have id: "order_id ord = oid" using ex by (rule get_order_id)
  have ca: "check_all w (items_of db oid) tr = (True, tr @ check_calls (items_of db oid))"
    using ok by (rule check_all_pass)
  have po: "process_order w now oid (db, tr)
      = (commit_order db (ord\<lparr>status := ''processed'', updated_at := Some now\<rparr>),
         notify_order_status oid ''processed'' (customer_email ord)
           (update_all w (items_of db oid) (tr @ check_calls (items_of db oid))))"
    by (simp add: process_order_def ex ca id)
  have g: "get_order (commit_order db (ord\<lparr>status := ''processed'', updated_at := Some now\<rparr>)) oid
      = Some (ord\<lparr>status := ''processed'', updated_at := Some now\<rparr>)"
    using ex by (rule get_order_commit) (simp add: id)
  have split: "decrement_calls (take j (items_of db oid)) @ decrement_calls (drop j (items_of db oid))
      = decrement_calls (items_of db oid)"
    by (simp add: decrement_calls_def flip: map_append)
  show ?thesis
    by (simp add: po g update_all_calls notify_order_status_def split)
qed

theorem decrement_failure_does_not_abort_witness:
  "\<not> decrement_succeeds world_adjust_down [GetInventory 1, GetInventory 2] (items_of db_ex 1) 0
   \<and> snd (process_order world_adjust_down 7 1 (db_ex, []))
     = [GetInventory 1, GetInventory 2, PostAdjust 1 (- 5) False, PostAdjust 2 (- 3) False,
        PostNotification (OrderStatus 1 ''processed'' ''ann@example.com'')]
   \<and> get_order (fst (process_order world_adjust_down 7 1 (db_ex, []))) 1
     = Some (order_ex\<lparr>status := ''processed'', updated_at := Some 7\<rparr>)"
proof -
  have ok: "\<forall>k<length (items_of db_ex 1). check_passes world_adjust_down [] (items_of db_ex 1) k"
    by (simp add: items_of_db_ex check_passes_def check_inventory_def world_adjust_down_def
        world_ok_def All_less_Suc numeral_2_eq_2)
  have j: "0 < length (items_of db_ex 1)" by (simp add: items_of_db_ex)
  have fails: "\<not> decrement_succeeds world_adjust_down ([] @ check_calls (items_of db_ex 1))
      (items_of db_ex 1) 0"
    by (simp add: items_of_db_ex decrement_succeeds_def update_inventory_def
        world_adjust_down_def world_ok_def)
  from decrement_failure_does_not_abort [OF get_order_db_ex ok j fails, of 7] fails
  show ?thesis
    by (simp add: items_of_db_ex check_calls_def decrement_calls_def order_ex_def)
qed

section \<open>The inventory check\<close>

text \<open>
  C7. \<open>check_inventory\<close> returns a truth value for every product id and
  quantity. When the call to the inventory service raises, or is answered with a
  status other than 200, the value is \<open>False\<close> (insufficient); the request has
  been sent once and no error reaches the caller.
\<close>

theorem check_inventory_failure_is_insufficient:
  assumes "inventory_get w tr pid = Unreachable
         \<or> (\<exists>status_code body. inventory_get w tr pid = Response status_code body
               \<and> status_code \<noteq> 200)"
  shows "check_inventory w pid qty tr = (False, tr @ [GetInventory pid])"
  using assms by (auto simp add: check_inventory_def)

theorem check_inventory_failure_is_insufficient_witness:
  "check_inventory (world_ok\<lparr>inventory_get := (\<lambda>tr pid. Unreachable)\<rparr>) 1 5 []
     = (False, [GetInventory 1])
   \<and> check_inventory (world_ok\<lparr>inventory_get := (\<lambda>tr pid. Response 404 None)\<rparr>) 1 5 []
     = (False, [GetInventory 1])"
proof -
  have a: "inventory_get (world_ok\<lparr>inventory_get := (\<lambda>tr pid. Unreachable)\<rparr>) [] 1 = Unreachable
         \<or> (\<exists>status_code body. inventory_get (world_ok\<lparr>inventory_get := (\<lambda>tr pid. Unreachable)\<rparr>) [] 1
               = Response status_code body \<and> status_code \<noteq> 200)"
    by simp
  have b: "inventory_get (world_ok\<lparr>inventory_get := (\<lambda>tr pid. Response 404 None)\<rparr>) [] 1 = Unreachable
         \<or> (\<exists>status_code body. inventory_get (world_ok\<lparr>inventory_get := (\<lambda>tr pid. Response 404 None)\<rparr>) [] 1
               = Response status_code body \<and> status_code \<noteq> 200)"
    by simp
  from check_inventory_failure_is_insufficient [OF a, of 5]
    check_inventory_failure_is_insufficient [OF b, of 5]
  show ?thesis by simp
qed

section \<open>Status update\<close>

lemma OrderStatusUpdate_valid_iff:
  "OrderStatusUpdate_valid s \<longleftrightarrow>
     s \<in> {''pending'', ''processing'', ''processed'', ''failed'', ''delivered'',
          ''pending'' @ [CHR 0x0A], ''processing'' @ [CHR 0x0A], ''processed'' @ [CHR 0x0A],
          ''failed'' @ [CHR 0x0A], ''delivered'' @ [CHR 0x0A]}"
  unfolding OrderStatusUpdate_valid_def order_statuses_def by auto

lemma run_tasks_notify:
  "run_tasks w now [NotifyOrderStatus oid st email] (db, tr)
     = (db, tr @ [PostNotification (OrderStatus oid st email)])"
  by (simp add: run_tasks_def notify_order_status_def)

lemma status_update_operation_found:
  assumes ex: "get_order db oid = Some ord"
  shows "status_update_operation w now oid (OrderStatusUpdate s) (db, tr)
     = (Inr (ord\<lparr>status := s, updated_at := Some now\<rparr>, items_of db oid),
        commit_order db (ord\<lparr>status := s, updated_at := Some now\<rparr>),
        tr @ [PostNotification (OrderStatus oid s (customer_email ord))])"
  using get_order_id [OF ex]
  by (simp add: status_update_operation_def update_order_status_def ex Let_def
      run_tasks_notify items_of_commit)

lemma status_update_operation_missing:
  assumes "get_order db oid = None"
  shows "status_update_operation w now oid su (db, tr)
     = (Inl (HTTPException 404 OrderNotFound), db, tr)"
  using assms
  by (simp add: status_update_operation_def update_order_status_def run_tasks_def)

text \<open>
  C5, as the specification states it, fails: \<open>PUT /orders/1/status\<close> with the
  status \<open>shipped\<close> on the stored order 1 is answered with a validation error,
  and the stored status is still \<open>pending\<close>.
\<close>

theorem status_update_rejects_other_strings:
  "get_order db_ex 1 = Some order_ex
   \<and> put_order_status world_ok 7 1 ''shipped'' (db_ex, []) = (Inl ValidationError, db_ex, [])
   \<and> status order_ex = ''pending''"
  by (simp add: get_order_db_ex put_order_status_def OrderStatusUpdate_valid_iff order_ex_def)

text \<open>
  C5, amended. For an order in storage, whatever its current status: a status string
  that matches the pattern of \<open>OrderStatusUpdate\<close> is written as the stored status
  (with the updated-timestamp); any other string is rejected with a validation error
  and nothing is written or sent. The strings that match are \<open>pending\<close>,
  \<open>processing\<close>, \<open>processed\<close>, \<open>failed\<close> and \<open>delivered\<close>, each also with
  one newline at its end.
\<close>

theorem status_update_accepts_schema_statuses:
  assumes ex: "get_order db oid = Some ord"
  shows "(OrderStatusUpdate_valid s \<longrightarrow>
            get_order (fst (snd (put_order_status w now oid s (db, tr)))) oid
              = Some (ord\<lparr>status := s, updated_at := Some now\<rparr>))
       \<and> (\<not> OrderStatusUpdate_valid s \<longrightarrow>
            put_order_status w now oid s (db, tr) = (Inl ValidationError, db, tr))
       \<and> (OrderStatusUpdate_valid s \<longleftrightarrow>
            (\<exists>t \<in> {''pending'', ''processing'', ''processed'', ''failed'', ''delivered''}.
               s = t \<or> s = t @ [CHR 0x0A]))"
proof -
  have id: "order_id ord = oid" using ex by (rule get_order_id)
  have g: "get_order (commit_order db (ord\<lparr>status := s, updated_at := Some now\<rparr>)) oid
      = Some (ord\<lparr>status := s, updated_at := Some now\<rparr>)"
    using ex by (rule get_order_commit) (simp add: id)
  have a: "OrderStatusUpdate_valid s \<longrightarrow>
            get_order (fst (snd (put_order_status w now oid s (db, tr)))) oid
              = Some (ord\<lparr>status := s, updated_at := Some now\<rparr>)"
    by (simp add: put_order_status_def status_update_operation_found [OF ex] g)
  have b: "\<not> OrderStatusUpdate_valid s \<longrightarrow>
            put_order_status w now oid s (db, tr) = (Inl ValidationError, db, tr)"
    by (simp add: put_order_status_def)
  have c: "OrderStatusUpdate_valid s \<longleftrightarrow>
            (\<exists>t \<in> {''pending'', ''processing'', ''processed'', ''failed'', ''delivered''}.
               s = t \<or> s = t @ [CHR 0x0A])"
    unfolding OrderStatusUpdate_valid_def order_statuses_def by auto
  from a b c show ?thesis by blast
qed

theorem status_update_accepts_schema_statuses_witness:
  "OrderStatusUpdate_valid ''delivered''
   \<and> get_order (fst (snd (put_order_status world_ok 7 1 ''delivered'' (db_ex, [])))) 1
       = Some (order_ex\<lparr>status := ''delivered'', updated_at := Some 7\<rparr>)
   \<and> \<not> OrderStatusUpdate_valid ''shipped''
   \<and> put_order_status world_ok 7 1 ''shipped'' (db_ex, []) = (Inl ValidationError, db_ex, [])"
proof -
  have v: "OrderStatusUpdate_valid ''delivered''" by (simp add: OrderStatusUpdate_valid_iff)
  have n: "\<not> OrderStatusUpdate_valid ''shipped''" by (simp add: OrderStatusUpdate_valid_iff)
  from status_update_accepts_schema_statuses [OF get_order_db_ex, of "''delivered''" world_ok 7 "[]"]
    status_update_accepts_schema_statuses [OF get_order_db_ex, of "''shipped''" world_ok 7 "[]"]
    v n
  show ?thesis by blast
qed

text \<open>
  C8. For an order in storage and an accepted status value, the status update
  answers with the order carrying the new status, writes that status and the current
  time as updated-timestamp whatever the status was before, and sends exactly one
  notification with the order id, the new status and the customer's email.
\<close>

theorem status_update_overwrites:
  assumes ex: "get_order db oid = Some ord"
    and valid: "OrderStatusUpdate_valid s"
  shows "put_order_status w now oid s (db, tr)
           = (Inr (ord\<lparr>status := s, updated_at := Some now\<rparr>, items_of db oid),
              commit_order db (ord\<lparr>status := s, updated_at := Some now\<rparr>),
              tr @ [PostNotification (OrderStatus oid s (customer_email ord))])
       \<and> get_order (commit_order db (ord\<lparr>status := s, updated_at := Some now\<rparr>)) oid
           = Some (ord\<lparr>status := s, updated_at := Some now\<rparr>)"
proof -
  have id: "order_id ord = oid" using ex by (rule get_order_id)
  have g: "get_order (commit_order db (ord\<lparr>status := s, updated_at := Some now\<rparr>)) oid
      = Some (ord\<lparr>status := s, updated_at := Some now\<rparr>)"
    using ex by (rule get_order_commit) (simp add: id)
  show ?thesis
    by (simp add: put_order_status_def valid status_update_operation_found [OF ex] g)
qed

theorem status_update_overwrites_witness:
  "fst (put_order_status world_ok 7 1 ''delivered'' (db_ex, []))
     = Inr (order_ex\<lparr>status := ''delivered'', updated_at := Some 7\<rparr>, items_of db_ex 1)
   \<and> get_order (fst (snd (put_order_status world_ok 7 1 ''delivered'' (db_ex, [])))) 1
     = Some (order_ex\<lparr>status := ''delivered'', updated_at := Some 7\<rparr>)
   \<and> snd (snd (put_order_status world_ok 7 1 ''delivered'' (db_ex, [])))
     = [PostNotification (OrderStatus 1 ''delivered'' ''ann@example.com'')]"
proof -
  have v: "OrderStatusUpdate_valid ''delivered''" by (simp add: OrderStatusUpdate_valid_iff)
  from status_update_overwrites [OF get_order_db_ex v, of world_ok 7 "[]"]
  show ?thesis by (simp add: order_ex_def)
qed

text \<open>
  C9. For an order id that is not in storage, the handler \<open>update_order_status\<close>
  raises 404 "Order not found", schedules no task and leaves storage as it was; with
  its background tasks run, storage and the calls sent are unchanged. The same holds
  for the endpoint whatever body it is given: nothing is written and nothing is sent.
\<close>

theorem status_update_missing_order:
  assumes "get_order db oid = None"
  shows "update_order_status now oid su db = (Inl (HTTPException 404 OrderNotFound), db, [])
       \<and> status_update_operation w now oid su (db, tr)
           = (Inl (HTTPException 404 OrderNotFound), db, tr)
       \<and> snd (put_order_status w now oid body (db, tr)) = (db, tr)"
  using assms
  by (simp add: status_update_operation_missing put_order_status_def update_order_status_def)

theorem status_update_missing_order_witness:
  "status_update_operation world_ok 7 2 (OrderStatusUpdate ''delivered'') (db_ex, [])
     = (Inl (HTTPException 404 OrderNotFound), db_ex, [])"
proof -
  have h: "get_order db_ex 2 = None" by (simp add: get_order_def db_ex_def order_ex_def)
  from status_update_missing_order [OF h, of 7 "OrderStatusUpdate ''delivered''" world_ok "[]"]
  show ?thesis by simp
qed


section \<open>Order creation\<close>

lemma snd_get_product_info: "snd (get_product_info w pid tr) = tr @ [GetProduct pid]"
  by (simp add: get_product_info_def)

lemma product_lookup_0:
  "product_lookup w tr (x # xs) 0 = fst (get_product_info w (req_product_id x) tr)"
  by (simp add: product_lookup_def lookup_calls_def)

lemma product_lookup_Suc:
  "product_lookup w tr (x # xs) (Suc k) = product_lookup w (tr @ [GetProduct (req_product_id x)]) xs k"
  by (simp add: product_lookup_def lookup_calls_def)

lemma add_items_Cons:
  "add_items w oid (x # xs) pend tr =
     (case fst (get_product_info w (req_product_id x) tr) of
        None \<Rightarrow> (Some (req_product_id x), pend, tr @ [GetProduct (req_product_id x)])
      | Some product \<Rightarrow>
          add_items w oid xs
            (pend @ [\<lparr>p_order_id = oid, p_product_id = req_product_id x,
                      p_quantity = req_quantity x, p_unit_price = price product\<rparr>])
            (tr @ [GetProduct (req_product_id x)]))"
  using snd_get_product_info [of w "req_product_id x" tr]
  by (cases "get_product_info w (req_product_id x) tr") (auto split: option.splits)

lemma add_items_missing:
  "k < length items \<Longrightarrow> (\<forall>i<k. product_lookup w tr items i \<noteq> None)
     \<Longrightarrow> product_lookup w tr items k = None
     \<Longrightarrow> fst (add_items w oid items pend tr) = Some (req_product_id (items ! k))
       \<and> snd (snd (add_items w oid items pend tr)) = tr @ lookup_calls (take (Suc k) items)"
proof (induction items arbitrary: tr k pend)
  case Nil
  then show ?case by simp
next
  case (Cons x xs)
  show ?case
  proof (cases k)
    case 0
    with Cons.prems have "fst (get_product_info w (req_product_id x) tr) = None"
      by (simp add: product_lookup_0)
    with 0 show ?thesis by (simp only: add_items_Cons) (simp add: lookup_calls_def)
  next
    case (Suc j)
    from Cons.prems Suc have "product_lookup w tr (x # xs) 0 \<noteq> None" by blast
    then obtain p where h0: "fst (get_product_info w (req_product_id x) tr) = Some p"
      by (auto simp add: product_lookup_0)
    have a: "j < length xs" using Cons.prems Suc by simp
    have b: "\<forall>i<j. product_lookup w (tr @ [GetProduct (req_product_id x)]) xs i \<noteq> None"
      using Cons.prems Suc product_lookup_Suc [of w tr x xs] by auto
    have c: "product_lookup w (tr @ [GetProduct (req_product_id x)]) xs j = None"
      using Cons.prems Suc product_lookup_Suc [of w tr x xs j] by simp
    from Cons.IH [OF a b c] h0 Suc
    show ?thesis by (simp only: add_items_Cons) (simp add: lookup_calls_def)
  qed
qed

lemma add_items_all:
  "(\<forall>k<length items. product_lookup w tr items k \<noteq> None)
     \<Longrightarrow> \<exists>new. add_items w oid items pend tr = (None, pend @ new, tr @ lookup_calls items)
           \<and> length new = length items
           \<and> (\<forall>k<length items. \<forall>p. product_lookup w tr items k = Some p \<longrightarrow>
                 new ! k = \<lparr>p_order_id = oid, p_product_id = req_product_id (items ! k),
                            p_quantity = req_quantity (items ! k), p_unit_price = price p\<rparr>)"
proof (induction items arbitrary: tr pend)
  case Nil
  then show ?case by (simp add: lookup_calls_def)
next
  case (Cons x xs)
  from Cons.prems have "product_lookup w tr (x # xs) 0 \<noteq> None" by blast
  then obtain p0 where h0: "fst (get_product_info w (req_product_id x) tr) = Some p0"
    by (auto simp add: product_lookup_0)
  let ?r = "\<lparr>p_order_id = oid, p_product_id = req_product_id x,
              p_quantity = req_quantity x, p_unit_price = price p0\<rparr>"
  let ?tr = "tr @ [GetProduct (req_product_id x)]"
  have "\<forall>k<length xs. product_lookup w ?tr xs k \<noteq> None"
    using Cons.prems product_lookup_Suc [of w tr x xs] by auto
  from Cons.IH [OF this, of "pend @ [?r]"]
  obtain new where n1: "add_items w oid xs (pend @ [?r]) ?tr
        = (None, (pend @ [?r]) @ new, ?tr @ lookup_calls xs)"
    and n2: "length new = length xs"
    and n3: "\<forall>k<length xs. \<forall>p. product_lookup w ?tr xs k = Some p \<longrightarrow>
                 new ! k = \<lparr>p_order_id = oid, p_product_id = req_product_id (xs ! k),
                            p_quantity = req_quantity (xs ! k), p_unit_price = price p\<rparr>"
    by blast
  have e1: "add_items w oid (x # xs) pend tr
      = (None, pend @ (?r # new), tr @ lookup_calls (x # xs))"
    using n1 h0 by (simp only: add_items_Cons) (simp add: lookup_calls_def)
  have e3: "\<forall>k<length (x # xs). \<forall>p. product_lookup w tr (x # xs) k = Some p \<longrightarrow>
        (?r # new) ! k = \<lparr>p_order_id = oid, p_product_id = req_product_id ((x # xs) ! k),
                            p_quantity = req_quantity ((x # xs) ! k), p_unit_price = price p\<rparr>"
  proof (intro allI impI)
    fix k p
    assume kl: "k < length (x # xs)" and lk: "product_lookup w tr (x # xs) k = Some p"
    show "(?r # new) ! k = \<lparr>p_order_id = oid, p_product_id = req_product_id ((x # xs) ! k),
                            p_quantity = req_quantity ((x # xs) ! k), p_unit_price = price p\<rparr>"
    proof (cases k)
      case 0
      with lk h0 show ?thesis by (simp add: product_lookup_0)
    next
      case (Suc j)
      with kl lk n3 show ?thesis by (simp add: product_lookup_Suc)
    qed
  qed
  from e1 n2 e3 show ?case by (intro exI [of _ "?r # new"]) simp
qed

lemma flush_items_rows:
  "\<exists>rows. flush_items tbl ps = tbl @ rows \<and> length rows = length ps
     \<and> (\<forall>k<length ps. item_order_id (rows ! k) = p_order_id (ps ! k)
           \<and> product_id (rows ! k) = p_product_id (ps ! k)
           \<and> quantity (rows ! k) = p_quantity (ps ! k)
           \<and> unit_price (rows ! k) = p_unit_price (ps ! k))"
proof (induction ps arbitrary: tbl)
  case Nil
  then show ?case by simp
next
  case (Cons p ps)
  let ?r = "\<lparr>item_id = next_id (map item_id tbl), item_order_id = p_order_id p,
              product_id = p_product_id p, quantity = p_quantity p,
              unit_price = p_unit_price p\<rparr>"
  from Cons.IH [of "tbl @ [?r]"]
  obtain rows where r1: "flush_items (tbl @ [?r]) ps = (tbl @ [?r]) @ rows"
    and r2: "length rows = length ps"
    and r3: "\<forall>k<length ps. item_order_id (rows ! k) = p_order_id (ps ! k)
           \<and> product_id (rows ! k) = p_product_id (ps ! k)
           \<and> quantity (rows ! k) = p_quantity (ps ! k)
           \<and> unit_price (rows ! k) = p_unit_price (ps ! k)"
    by blast
  have "\<forall>k<length (p # ps). item_order_id ((?r # rows) ! k) = p_order_id ((p # ps) ! k)
           \<and> product_id ((?r # rows) ! k) = p_product_id ((p # ps) ! k)
           \<and> quantity ((?r # rows) ! k) = p_quantity ((p # ps) ! k)
           \<and> unit_price ((?r # rows) ! k) = p_unit_price ((p # ps) ! k)"
    using r3 by (auto simp add: nth_Cons split: nat.splits)
  with r1 r2 show ?case by (intro exI [of _ "?r # rows"]) simp
qed

lemma next_id_fresh: "i \<in> set ids \<Longrightarrow> i < next_id ids"
proof -
  assume a: "i \<in> set ids"
  then have "ids \<noteq> []" by auto
  moreover have "i \<le> Max (set ids)" using a by simp
  ultimately show ?thesis by (simp add: next_id_def)
qed

lemma filter_fresh_order:
  "filter (\<lambda>r. order_id r \<noteq> next_id (map order_id xs)) xs = xs"
proof -
  have "\<forall>r\<in>set xs. order_id r \<noteq> next_id (map order_id xs)"
    using next_id_fresh [of _ "map order_id xs"] by fastforce
  then show ?thesis by (simp add: filter_id_conv)
qed

lemma find_fresh_order:
  "find (\<lambda>r. order_id r = next_id (map order_id xs)) xs = None"
  using next_id_fresh [of _ "map order_id xs"] by (fastforce simp add: find_None_iff)


lemma process_order_keeps_items:
  "order_items (fst (process_order w now oid (db, tr))) = order_items db"
  by (simp add: process_order_def order_items_commit split: option.splits prod.splits)

lemma update_order_status_keeps_items:
  "order_items (fst (snd (update_order_status now oid su db))) = order_items db"
  by (simp add: update_order_status_def order_items_commit Let_def split: option.splits)

text \<open>
  C3. Let some line of the request not resolve when the product service is asked for
  it. Then there is such a line (the first one) for which \<open>create_order\<close> raises
  404 "Product {id} not found" with the product id of that line; afterwards the orders
  table is what it was before the request, no order has the id the new order was
  given, and no fulfillment is scheduled.
\<close>

theorem create_order_missing_product:
  assumes "\<exists>k<length (req_items req). product_lookup w tr (req_items req) k = None"
  shows "\<exists>k<length (req_items req).
           product_lookup w tr (req_items req) k = None
         \<and> (\<forall>i<k. product_lookup w tr (req_items req) i \<noteq> None)
         \<and> fst (create_order w now req (db, tr))
             = Inl (HTTPException 404 (ProductIdNotFound (req_product_id (req_items req ! k))))
         \<and> orders (fst (snd (create_order w now req (db, tr)))) = orders db
         \<and> get_order (fst (snd (create_order w now req (db, tr))))
               (next_id (map order_id (orders db))) = None
         \<and> snd (snd (snd (create_order w now req (db, tr)))) = []"
proof -
  let ?items = "req_items req"
  let ?oid = "next_id (map order_id (orders db))"
  let ?P = "\<lambda>k. k < length ?items \<and> product_lookup w tr ?items k = None"
  from assms have "\<exists>k. ?P k" by blast
  then obtain k where k: "?P k" and least: "\<forall>i<k. \<not> ?P i"
    using exists_least_iff [of ?P] by blast
  from k least have before: "\<forall>i<k. product_lookup w tr ?items i \<noteq> None" by auto
  from k have kl: "k < length ?items" and kn: "product_lookup w tr ?items k = None" by auto
  from add_items_missing [OF kl before kn, of ?oid "[]"]
  obtain pend tr' where ai: "add_items w ?oid ?items [] tr
      = (Some (req_product_id (?items ! k)), pend, tr')"
    by (cases "add_items w ?oid ?items [] tr") auto
  have r: "fst (create_order w now req (db, tr))
             = Inl (HTTPException 404 (ProductIdNotFound (req_product_id (?items ! k))))"
    by (simp add: create_order_def Let_def ai)
  have o: "orders (fst (snd (create_order w now req (db, tr)))) = orders db"
    by (simp add: create_order_def Let_def ai delete_order_def filter_fresh_order)
  have g: "get_order (fst (snd (create_order w now req (db, tr)))) ?oid = None"
    unfolding get_order_def o by (rule find_fresh_order)
  have t: "snd (snd (snd (create_order w now req (db, tr)))) = []"
    by (simp add: create_order_def Let_def ai)
  from kl kn before r o g t show ?thesis by blast
qed

theorem create_order_missing_product_witness:
  "fst (create_order world_missing 4 req_ex (db_ex, []))
     = Inl (HTTPException 404 (ProductIdNotFound 2))
   \<and> orders (fst (snd (create_order world_missing 4 req_ex (db_ex, [])))) = [order_ex]
   \<and> snd (snd (create_order world_missing 4 req_ex (db_ex, [])))
     = ([GetProduct 1, GetProduct 2], [])"
proof -
  have h: "\<exists>k<length (req_items req_ex). product_lookup world_missing [] (req_items req_ex) k = None"
    by (rule exI [of _ 1])
      (simp add: req_ex_def product_lookup_def get_product_info_def world_missing_def
        world_ok_def lookup_calls_def)
  from create_order_missing_product [OF h, of 4 db_ex]
  show ?thesis
    by (simp add: create_order_def Let_def req_ex_def db_ex_def order_ex_def next_id_def
        get_product_info_def world_missing_def world_ok_def delete_order_def items_of_def
        del: set_filter)
qed

text \<open>
  C4. Let every one of the N lines of the request resolve. Then \<open>create_order\<close>
  returns the new order with status \<open>pending\<close> and the customer of the request,
  adds this one order to the orders table and N rows to the order lines, the row of
  line \<open>k\<close> carrying the id of the new order, the product id and quantity of the
  line and as unit price the price the product lookup of that line returned; it sends
  one lookup per line and schedules the fulfillment of the new order. The rows are not
  touched afterwards: neither fulfillment, in whatever world and with whatever prices,
  nor a status update changes an order line.
\<close>

theorem create_order_persists:
  assumes "\<forall>k<length (req_items req). product_lookup w tr (req_items req) k \<noteq> None"
  shows "\<exists>ord lines rows db'.
           create_order w now req (db, tr)
             = (Inr (ord, lines), db', tr @ lookup_calls (req_items req),
                [ProcessOrder (order_id ord)])
         \<and> status ord = ''pending''
         \<and> customer_name ord = req_customer_name req
         \<and> customer_email ord = req_customer_email req
         \<and> orders db' = orders db @ [ord]
         \<and> order_items db' = order_items db @ rows
         \<and> length rows = length (req_items req)
         \<and> (\<forall>k<length (req_items req). \<forall>p.
               product_lookup w tr (req_items req) k = Some p \<longrightarrow>
                 item_order_id (rows ! k) = order_id ord
               \<and> product_id (rows ! k) = req_product_id (req_items req ! k)
               \<and> quantity (rows ! k) = req_quantity (req_items req ! k)
               \<and> unit_price (rows ! k) = price p)
         \<and> (\<forall>w' now' oid' tr'.
               order_items (fst (process_order w' now' oid' (db', tr'))) = order_items db')
         \<and> (\<forall>now' oid' su.
               order_items (fst (snd (update_order_status now' oid' su db'))) = order_items db')"
proof -
  let ?items = "req_items req"
  let ?oid = "next_id (map order_id (orders db))"
  let ?ord = "\<lparr>order_id = ?oid, customer_name = req_customer_name req,
               customer_email = req_customer_email req,
               status = ''pending'', created_at = now, updated_at = None\<rparr>"
  from add_items_all [OF assms, of ?oid "[]"]
  obtain new where a1: "add_items w ?oid ?items [] tr = (None, new, tr @ lookup_calls ?items)"
    and a2: "length new = length ?items"
    and a3: "\<forall>k<length ?items. \<forall>p. product_lookup w tr ?items k = Some p \<longrightarrow>
                 new ! k = \<lparr>p_order_id = ?oid, p_product_id = req_product_id (?items ! k),
                            p_quantity = req_quantity (?items ! k), p_unit_price = price p\<rparr>"
    by auto
  from flush_items_rows [of "order_items db" new]
  obtain rows where f1: "flush_items (order_items db) new = order_items db @ rows"
    and f2: "length rows = length new"
    and f3: "\<forall>k<length new. item_order_id (rows ! k) = p_order_id (new ! k)
           \<and> product_id (rows ! k) = p_product_id (new ! k)
           \<and> quantity (rows ! k) = p_quantity (new ! k)
           \<and> unit_price (rows ! k) = p_unit_price (new ! k)"
    by blast
  let ?db' = "db\<lparr>orders := orders db @ [?ord], order_items := order_items db @ rows\<rparr>"
  have c: "create_order w now req (db, tr)
      = (Inr (?ord, items_of ?db' ?oid), ?db', tr @ lookup_calls ?items, [ProcessOrder ?oid])"
    by (simp add: create_order_def Let_def a1 f1)
  have rows: "\<forall>k<length ?items. \<forall>p. product_lookup w tr ?items k = Some p \<longrightarrow>
                 item_order_id (rows ! k) = order_id ?ord
               \<and> product_id (rows ! k) = req_product_id (?items ! k)
               \<and> quantity (rows ! k) = req_quantity (?items ! k)
               \<and> unit_price (rows ! k) = price p"
    using a2 a3 f3 by simp
  have len: "length rows = length ?items" using a2 f2 by simp
  show ?thesis
    apply (rule exI [of _ ?ord])
    apply (rule exI [of _ "items_of ?db' ?oid"])
    apply (rule exI [of _ rows])
    apply (rule exI [of _ ?db'])
    using c rows len
    apply (simp add: process_order_keeps_items update_order_status_keeps_items)
    done
qed

theorem create_order_persists_witness:
  "create_order world_ok 4 req_ex (db_ex, [])
     = (Inr (\<lparr>order_id = 2, customer_name = ''Bob'', customer_email = ''bob@example.com'',
               status = ''pending'', created_at = 4, updated_at = None\<rparr>,
             [\<lparr>item_id = 3, item_order_id = 2, product_id = 1, quantity = 5, unit_price = 10\<rparr>,
              \<lparr>item_id = 4, item_order_id = 2, product_id = 2, quantity = 3, unit_price = 20\<rparr>]),
        \<lparr>orders =
            [order_ex,
             \<lparr>order_id = 2, customer_name = ''Bob'', customer_email = ''bob@example.com'',
               status = ''pending'', created_at = 4, updated_at = None\<rparr>],
          order_items =
            [\<lparr>item_id = 1, item_order_id = 1, product_id = 1, quantity = 5, unit_price = 10\<rparr>,
             \<lparr>item_id = 2, item_order_id = 1, product_id = 2, quantity = 3, unit_price = 20\<rparr>,
             \<lparr>item_id = 3, item_order_id = 2, product_id = 1, quantity = 5, unit_price = 10\<rparr>,
             \<lparr>item_id = 4, item_order_id = 2, product_id = 2, quantity = 3, unit_price = 20\<rparr>]\<rparr>,
        [GetProduct 1, GetProduct 2], [ProcessOrder 2])"
proof -
  have h: "\<forall>k<length (req_items req_ex). product_lookup world_ok [] (req_items req_ex) k \<noteq> None"
    by (simp add: req_ex_def product_lookup_def get_product_info_def world_ok_def
        lookup_calls_def All_less_Suc numeral_2_eq_2)
  from create_order_persists [OF h, of 4 db_ex]
  show ?thesis
    by (simp add: create_order_def Let_def req_ex_def db_ex_def order_ex_def next_id_def
        get_product_info_def world_ok_def items_of_def)
qed


section \<open>Inventory quantities\<close>

lemma quantities_nonneg_commit:
  "quantities_nonneg db \<Longrightarrow> 0 \<le> inv_quantity it \<Longrightarrow> quantities_nonneg (commit_item db it)"
  by (induction db) (simp_all add: quantities_nonneg_def commit_item_def)

lemma quantities_nonneg_append:
  "quantities_nonneg db \<Longrightarrow> 0 \<le> inv_quantity it \<Longrightarrow> quantities_nonneg (db @ [it])"
  by (simp add: quantities_nonneg_def)

lemma get_item_nonneg:
  "quantities_nonneg db \<Longrightarrow> get_item db pid = Some it \<Longrightarrow> 0 \<le> inv_quantity it"
  by (induction db) (auto simp add: quantities_nonneg_def get_item_def split: if_splits)

lemma get_item_product: "get_item db pid = Some it \<Longrightarrow> inv_product_id it = pid"
  by (induction db) (auto simp add: get_item_def split: if_splits)

lemma get_item_commit:
  "get_item db pid = Some it \<Longrightarrow> inv_id it' = inv_id it \<Longrightarrow> inv_product_id it' = pid
     \<Longrightarrow> get_item (commit_item db it') pid = Some it'"
  by (induction db) (auto simp add: get_item_def commit_item_def split: if_splits)

lemma create_inventory_item_nonneg:
  assumes "quantities_nonneg db" and "0 \<le> ic_quantity item"
  shows "quantities_nonneg (fst (snd (create_inventory_item w threshold item (db, tr))))"
  using assms
  by (simp add: create_inventory_item_def Let_def quantities_nonneg_commit
      quantities_nonneg_append split: prod.splits option.splits)

lemma update_inventory_item_nonneg:
  assumes "quantities_nonneg db" and "InventoryItemUpdate_valid item"
  shows "quantities_nonneg (fst (snd (update_inventory_item w threshold pid item (db, tr))))"
proof (cases "get_item db pid")
  case None
  with assms show ?thesis
    by (simp add: update_inventory_item_def split: prod.splits)
next
  case (Some db_item)
  have q: "0 \<le> inv_quantity db_item" using assms(1) Some by (rule get_item_nonneg)
  show ?thesis
  proof (cases "iu_quantity item")
    case None
    with assms Some q show ?thesis
      by (simp add: update_inventory_item_def Let_def quantities_nonneg_commit
          split: prod.splits)
  next
    case outer: (Some v)
    show ?thesis
    proof (cases v)
      case None
      with assms Some outer show ?thesis
        by (simp add: update_inventory_item_def split: prod.splits)
    next
      case inner: (Some x)
      with assms(2) outer have "0 \<le> x" by (simp add: InventoryItemUpdate_valid_def)
      with assms Some outer inner show ?thesis
        by (simp add: update_inventory_item_def Let_def quantities_nonneg_commit
            split: prod.splits)
    qed
  qed
qed

lemma adjust_inventory_nonneg:
  assumes "quantities_nonneg db" and "\<not> allow_negative adjustment"
  shows "quantities_nonneg (fst (snd (adjust_inventory threshold pid adjustment db)))"
  using assms
  by (simp add: adjust_inventory_def Let_def quantities_nonneg_commit split: option.splits)

lemma serialize_response_db: "fst (snd (serialize_response threshold r)) = fst (snd r)"
  by (cases r) (simp add: serialize_response_def split: sum.splits)

text \<open>
  C10. Let no stored quantity be negative. Then none is negative after
  \<open>POST /inventory/\<close>, after \<open>PUT /inventory/{product_id}\<close>, and after an
  adjustment that does not allow negative quantities, whatever the request and its
  outcome. For a product with an inventory row, an adjustment that does not allow
  negative quantities and would make the quantity negative is answered with 400 and
  changes nothing, in storage or in what is sent; every other adjustment stores the old
  quantity plus the amount, and answers with the row if the row passes the response
  model, with a 500 if it does not.
\<close>

theorem inventory_never_negative:
  assumes nonneg: "quantities_nonneg db"
  shows "quantities_nonneg (fst (snd (post_inventory w threshold item (db, tr))))
       \<and> quantities_nonneg (fst (snd (put_inventory w threshold pid upd (db, tr))))
       \<and> (\<not> allow_negative adj \<longrightarrow>
            quantities_nonneg (fst (snd (post_inventory_adjust threshold pid adj (db, tr)))))
       \<and> (\<forall>it. get_item db pid = Some it \<longrightarrow>
            (if inv_quantity it + amount adj < 0 \<and> \<not> allow_negative adj
             then post_inventory_adjust threshold pid adj (db, tr)
                    = (Inl (HTTPException 400 NegativeInventory), db, tr)
             else get_item (fst (snd (post_inventory_adjust threshold pid adj (db, tr)))) pid
                    = Some (it\<lparr>inv_quantity := inv_quantity it + amount adj\<rparr>)
                \<and> fst (post_inventory_adjust threshold pid adj (db, tr))
                    = (if InventoryItem_valid (it\<lparr>inv_quantity := inv_quantity it + amount adj\<rparr>)
                       then Inr (it\<lparr>inv_quantity := inv_quantity it + amount adj\<rparr>)
                       else Inl InternalServerError)))"
proof -
  have a: "quantities_nonneg (fst (snd (post_inventory w threshold item (db, tr))))"
  proof (cases "InventoryItemCreate_valid item")
    case True
    then have "0 \<le> ic_quantity item" by (simp add: InventoryItemCreate_valid_def)
    from create_inventory_item_nonneg [OF nonneg this, of w threshold tr] True
    show ?thesis by (simp add: post_inventory_def serialize_response_db)
  next
    case False
    with nonneg show ?thesis by (simp add: post_inventory_def)
  qed
  have b: "quantities_nonneg (fst (snd (put_inventory w threshold pid upd (db, tr))))"
  proof (cases "InventoryItemUpdate_valid upd")
    case True
    from update_inventory_item_nonneg [OF nonneg True, of w threshold pid tr] True
    show ?thesis by (simp add: put_inventory_def serialize_response_db)
  next
    case False
    with nonneg show ?thesis by (simp add: put_inventory_def)
  qed
  have c: "\<not> allow_negative adj \<longrightarrow>
            quantities_nonneg (fst (snd (post_inventory_adjust threshold pid adj (db, tr))))"
    using adjust_inventory_nonneg [OF nonneg, of adj threshold pid]
    by (cases "adjust_inventory threshold pid adj db")
      (simp add: post_inventory_adjust_def serialize_response_db)
  have d: "\<forall>it. get_item db pid = Some it \<longrightarrow>
            (if inv_quantity it + amount adj < 0 \<and> \<not> allow_negative adj
             then post_inventory_adjust threshold pid adj (db, tr)
                    = (Inl (HTTPException 400 NegativeInventory), db, tr)
             else get_item (fst (snd (post_inventory_adjust threshold pid adj (db, tr)))) pid
                    = Some (it\<lparr>inv_quantity := inv_quantity it + amount adj\<rparr>)
                \<and> fst (post_inventory_adjust threshold pid adj (db, tr))
                    = (if InventoryItem_valid (it\<lparr>inv_quantity := inv_quantity it + amount adj\<rparr>)
                       then Inr (it\<lparr>inv_quantity := inv_quantity it + amount adj\<rparr>)
                       else Inl InternalServerError))"
  proof (intro allI impI)
    fix it
    assume g: "get_item db pid = Some it"
    let ?it = "it\<lparr>inv_quantity := inv_quantity it + amount adj\<rparr>"
    have p: "inv_product_id it = pid" using g by (rule get_item_product)
    have gc: "get_item (commit_item db ?it) pid = Some ?it"
      using g by (rule get_item_commit) (simp_all add: p)
    show "if inv_quantity it + amount adj < 0 \<and> \<not> allow_negative adj
             then post_inventory_adjust threshold pid adj (db, tr)
                    = (Inl (HTTPException 400 NegativeInventory), db, tr)
             else get_item (fst (snd (post_inventory_adjust threshold pid adj (db, tr)))) pid
                    = Some ?it
                \<and> fst (post_inventory_adjust threshold pid adj (db, tr))
                    = (if InventoryItem_valid ?it then Inr ?it else Inl InternalServerError)"
    proof (cases "inv_quantity it + amount adj < 0 \<and> \<not> allow_negative adj")
      case True
      with g show ?thesis
        by (simp add: post_inventory_adjust_def adjust_inventory_def Let_def
            serialize_response_def)
    next
      case False
      then have h: "adjust_inventory threshold pid adj db
          = (Inr ?it, commit_item db ?it, low_stock_tasks threshold ?it)"
        using g by (simp add: adjust_inventory_def Let_def)
      have s: "fst (snd (post_inventory_adjust threshold pid adj (db, tr))) = commit_item db ?it"
        by (simp add: post_inventory_adjust_def h serialize_response_db)
      have r: "fst (post_inventory_adjust threshold pid adj (db, tr))
          = (if InventoryItem_valid ?it then Inr ?it else Inl InternalServerError)"
        by (simp add: post_inventory_adjust_def h serialize_response_def)
      show ?thesis by (subst if_not_P [OF False]) (simp add: s r gc)
    qed
  qed
  from a b c d show ?thesis by blast
qed


theorem inventory_never_negative_witness:
  "quantities_nonneg inventory_ex
   \<and> post_inventory_adjust 10 1 \<lparr>amount = - 5, allow_negative = False\<rparr> (inventory_ex, [])
       = (Inr \<lparr>inv_id = 1, inv_product_id = 1, inv_quantity = 3, location = None\<rparr>,
          [\<lparr>inv_id = 1, inv_product_id = 1, inv_quantity = 3, location = None\<rparr>,
           \<lparr>inv_id = 2, inv_product_id = 2, inv_quantity = 2, location = Some ''A''\<rparr>],
          [PostNotification (LowStock 1 3 10)])
   \<and> post_inventory_adjust 10 1 \<lparr>amount = - 9, allow_negative = False\<rparr> (inventory_ex, [])
       = (Inl (HTTPException 400 NegativeInventory), inventory_ex, [])
   \<and> post_inventory_adjust 10 1 \<lparr>amount = - 9, allow_negative = True\<rparr> (inventory_ex, [])
       = (Inl InternalServerError,
          [\<lparr>inv_id = 1, inv_product_id = 1, inv_quantity = - 1, location = None\<rparr>,
           \<lparr>inv_id = 2, inv_product_id = 2, inv_quantity = 2, location = Some ''A''\<rparr>],
          [])
   \<and> quantities_nonneg
        (fst (snd (post_inventory world_ok 10
           \<lparr>ic_product_id = 3, ic_quantity = 0, ic_location = None\<rparr> (inventory_ex, []))))
   \<and> quantities_nonneg
        (fst (snd (put_inventory world_ok 10 1
           \<lparr>iu_quantity = Some (Some 40), iu_location = None\<rparr> (inventory_ex, []))))"
proof -
  have n: "quantities_nonneg inventory_ex"
    by (simp add: quantities_nonneg_def inventory_ex_def)
  have g: "get_item inventory_ex 1
      = Some \<lparr>inv_id = 1, inv_product_id = 1, inv_quantity = 8, location = None\<rparr>"
    by (simp add: get_item_def inventory_ex_def)
  from inventory_never_negative [OF n, of world_ok 10
      "\<lparr>ic_product_id = 3, ic_quantity = 0, ic_location = None\<rparr>" "[]" 1
      "\<lparr>iu_quantity = Some (Some 40), iu_location = None\<rparr>"
      "\<lparr>amount = - 9, allow_negative = False\<rparr>"]
  have a: "quantities_nonneg
        (fst (snd (post_inventory world_ok 10
           \<lparr>ic_product_id = 3, ic_quantity = 0, ic_location = None\<rparr> (inventory_ex, []))))"
    and b: "quantities_nonneg
        (fst (snd (put_inventory world_ok 10 1
           \<lparr>iu_quantity = Some (Some 40), iu_location = None\<rparr> (inventory_ex, []))))"
    and c: "post_inventory_adjust 10 1 \<lparr>amount = - 9, allow_negative = False\<rparr> (inventory_ex, [])
       = (Inl (HTTPException 400 NegativeInventory), inventory_ex, [])"
    using g by simp_all
  have d: "post_inventory_adjust 10 1 \<lparr>amount = - 5, allow_negative = False\<rparr> (inventory_ex, [])
       = (Inr \<lparr>inv_id = 1, inv_product_id = 1, inv_quantity = 3, location = None\<rparr>,
          [\<lparr>inv_id = 1, inv_product_id = 1, inv_quantity = 3, location = None\<rparr>,
           \<lparr>inv_id = 2, inv_product_id = 2, inv_quantity = 2, location = Some ''A''\<rparr>],
          [PostNotification (LowStock 1 3 10)])"
    by (simp add: post_inventory_adjust_def adjust_inventory_def get_item_def inventory_ex_def
        Let_def commit_item_def low_stock_tasks_def notify_low_stock_def
        serialize_response_def InventoryItem_valid_def location_valid_def)
  have e: "post_inventory_adjust 10 1 \<lparr>amount = - 9, allow_negative = True\<rparr> (inventory_ex, [])
       = (Inl InternalServerError,
          [\<lparr>inv_id = 1, inv_product_id = 1, inv_quantity = - 1, location = None\<rparr>,
           \<lparr>inv_id = 2, inv_product_id = 2, inv_quantity = 2, location = Some ''A''\<rparr>],
          [])"
    by (simp add: post_inventory_adjust_def adjust_inventory_def get_item_def inventory_ex_def
        Let_def commit_item_def low_stock_tasks_def notify_low_stock_def
        serialize_response_def InventoryItem_valid_def location_valid_def)
  from n a b c d e show ?thesis by simp
qed


end
